theory Spec2Isabelle
  imports Main
begin

section \<open>JavaScript values\<close>

text \<open>
  The module \<^verbatim>\<open>tailwind.config.js\<close> builds one value out of string literals,
  array literals and object literals. An object literal keeps its properties in
  the order they are written, so an object is an association list.
\<close>

datatype jsval =
    JString string
  | JArray "jsval list"
  | JObject "(string \<times> jsval) list"

text \<open>
  Reading the property \<open>k\<close> of an object, \<^verbatim>\<open>v[k]\<close>; \<^verbatim>\<open>undefined\<close> is \<open>None\<close>.
  Only objects are read here, and the model gives \<open>None\<close> for a string or an array.
\<close>

fun get_prop :: "jsval \<Rightarrow> string \<Rightarrow> jsval option" where
  "get_prop (JObject kvs) k = map_of kvs k"
| "get_prop v k = None"

section \<open>The module tailwind.config.js\<close>

text \<open>
  \<^verbatim>\<open>
  module.exports = {
    content: [
      "./templates/**/*.html",
      "./**/templates/**/*.html",
    ],
    theme: {
      extend: {},
    },
    plugins: [],
  };
  \<close>
\<close>

definition content :: jsval where
  "content = JArray [JString ''./templates/**/*.html'',
                     JString ''./**/templates/**/*.html'']"

definition theme :: jsval where
  "theme = JObject [(''extend'', JObject [])]"

definition plugins :: jsval where
  "plugins = JArray []"

definition module_exports :: jsval where
  "module_exports =
     JObject [(''content'', content), (''theme'', theme), (''plugins'', plugins)]"

text \<open>
  The CommonJS module object handed to the module body. The body is the single
  assignment to \<^verbatim>\<open>module.exports\<close>: it reads nothing of the module object and
  replaces its \<^verbatim>\<open>exports\<close> field.
\<close>

record js_module =
  exports :: jsval

text \<open>
  Modelled from the spec: the error kind \<^verbatim>\<open>ConfigurationError\<close>, which the source
  does not declare; the spec names it as the only error kind.
\<close>

datatype error = ConfigurationError

text \<open>
  Running the module body: a statement either throws (\<open>Inl\<close>) or returns the
  updated module object (\<open>Inr\<close>). The body holds no \<^verbatim>\<open>throw\<close>, no call and no
  property read, so its only branch is the assignment.
\<close>

definition tailwind_config_js :: "js_module \<Rightarrow> error + js_module" where
  "tailwind_config_js m = Inr (m\<lparr>exports := module_exports\<rparr>)"

text \<open>
  Loading the module (\<^verbatim>\<open>require\<close>): run the body on a module object and hand
  back what \<^verbatim>\<open>module.exports\<close> holds afterwards, or the error the body threw.
\<close>

definition load :: "js_module \<Rightarrow> error + jsval" where
  "load m = (case tailwind_config_js m of
               Inl e \<Rightarrow> Inl e
             | Inr m' \<Rightarrow> Inr (exports m'))"

section \<open>Properties of the exported configuration\<close>

text \<open>
  C1. Loading the module yields one object with exactly the keys \<^verbatim>\<open>content\<close>,
  \<^verbatim>\<open>theme\<close> and \<^verbatim>\<open>plugins\<close>. Its \<^verbatim>\<open>content\<close> is an array of strings, its
  \<^verbatim>\<open>theme\<close> is an object whose property \<^verbatim>\<open>extend\<close> is an object, and its
  \<^verbatim>\<open>plugins\<close> is an array.
\<close>

theorem module_exports_shape:
  "\<exists>patterns extend_props plugin_list.
     load m = Inr (JObject
       [(''content'', JArray (map JString patterns)),
        (''theme'', JObject [(''extend'', JObject extend_props)]),
        (''plugins'', JArray plugin_list)])"
proof -
  have "load m = Inr (JObject
       [(''content'', JArray (map JString [''./templates/**/*.html'',
                                           ''./**/templates/**/*.html''])),
        (''theme'', JObject [(''extend'', JObject [])]),
        (''plugins'', JArray [])])"
    by (simp add: load_def tailwind_config_js_def module_exports_def
                  content_def theme_def plugins_def)
  then show ?thesis by blast
qed

text \<open>
  C3. On every module object the load succeeds, and the \<^verbatim>\<open>content\<close> property of
  the value it exports is the array of exactly the two strings
  \<^verbatim>\<open>"./templates/**/*.html"\<close> and \<^verbatim>\<open>"./**/templates/**/*.html"\<close>, in that order.
\<close>

theorem content_exact:
  "\<exists>cfg. load m = Inr cfg
     \<and> get_prop cfg ''content'' =
         Some (JArray [JString ''./templates/**/*.html'',
                       JString ''./**/templates/**/*.html''])"
  by (simp add: load_def tailwind_config_js_def module_exports_def content_def)

text \<open>
  C4. On every module object the load succeeds, and in the value it exports the
  \<^verbatim>\<open>extend\<close> property of \<^verbatim>\<open>theme\<close> is the empty object and \<^verbatim>\<open>plugins\<close> is the
  empty array.
\<close>

theorem theme_extend_plugins_empty:
  "\<exists>cfg t. load m = Inr cfg
     \<and> get_prop cfg ''theme'' = Some t
     \<and> get_prop t ''extend'' = Some (JObject [])
     \<and> get_prop cfg ''plugins'' = Some (JArray [])"
  by (simp add: load_def tailwind_config_js_def module_exports_def
                theme_def plugins_def)

text \<open>
  C8. Loading is deterministic: two loads, each on a module object of its own,
  both succeed with equal values, so with equal \<^verbatim>\<open>content\<close>, \<^verbatim>\<open>theme\<close> and
  \<^verbatim>\<open>plugins\<close>.
\<close>

theorem load_deterministic:
  "load m1 = load m2
   \<and> (case (load m1, load m2) of
        (Inr c1, Inr c2) \<Rightarrow>
            get_prop c1 ''content'' = get_prop c2 ''content''
          \<and> get_prop c1 ''theme'' = get_prop c2 ''theme''
          \<and> get_prop c1 ''plugins'' = get_prop c2 ''plugins''
      | _ \<Rightarrow> False)"
  by (simp add: load_def tailwind_config_js_def)

text \<open>
  C9. Loading never raises: on every module object the body returns, and the
  load hands back the configuration value, never a \<^verbatim>\<open>ConfigurationError\<close>. The
  patterns come back as they are written, with no validation applied to them.
\<close>

theorem load_never_raises:
  "load m \<noteq> Inl e
   \<and> load m = Inr module_exports
   \<and> (case load m of
        Inl e' \<Rightarrow> False
      | Inr cfg \<Rightarrow> get_prop cfg ''content'' = Some content)"
  by (simp add: load_def tailwind_config_js_def module_exports_def)

end
